theory Spec2Isabelle
  imports Complex_Main "HOL-Library.Stream"
begin

section \<open>Camera trajectory generators of \<^verbatim>\<open>utils_sequencer.py\<close>\<close>

text \<open>
  The four generators \<^verbatim>\<open>generate_train_box\<close>, \<^verbatim>\<open>generate_test_box\<close>,
  \<^verbatim>\<open>generate_train_line\<close> and \<^verbatim>\<open>generate_test_line\<close> turn a region or a segment of
  the ground plane into a list of camera keyframes and thread a frame cursor through it.

  Modelling decisions:
  \<^item> Python numbers that hold coordinates, angles and distances are \<open>real\<close>: the
    rounding of IEEE doubles is not modelled, so \<^verbatim>\<open>int(w/interval)\<close> is the truncation of
    the exact quotient. The frame cursor and the sample counts are \<open>int\<close>.
  \<^item> The list arguments (\<^verbatim>\<open>line1\<close>, \<^verbatim>\<open>line2\<close>, \<^verbatim>\<open>point1\<close>, \<^verbatim>\<open>point2\<close>) are
    references: a generator receives the address of each list and the store that holds
    the lists, and returns the store it leaves behind.
  \<^item> Exceptions are values: a failed \<^verbatim>\<open>assert\<close> is \<open>AssertionError\<close>, unpacking a list
    that has not four elements and \<^verbatim>\<open>math.dist\<close> on lists of different lengths are
    \<open>ValueError\<close>, an index beyond the end of a list is \<open>IndexError\<close>.
  \<^item> \<^verbatim>\<open>np.random\<close> is an explicit stream of raw draws that the test generators consume
    and return.
\<close>

subsection \<open>Values\<close>

datatype error = AssertionError | ValueError | IndexError

text \<open>
  Modelled from the spec: \<^verbatim>\<open>SequenceKey\<close> is imported from \<^verbatim>\<open>pydantic_model\<close>, which is
  not among the sources. The generators build it with the keyword arguments
  \<^verbatim>\<open>frame\<close>, \<^verbatim>\<open>location\<close> and \<^verbatim>\<open>rotation\<close>; the spec describes a keyframe as an integer
  frame, a position triple and a rotation triple (roll, pitch, yaw) of real numbers.
\<close>

record SequenceKey =
  frame :: int
  location :: "real \<times> real \<times> real"
  rotation :: "real \<times> real \<times> real"

type_synonym addr = nat

type_synonym store = "addr \<Rightarrow> real list"

subsection \<open>Library functions\<close>

text \<open>
  \<^verbatim>\<open>np.random.randint(low, high, size=1)\<close> returns one integer of the half-open range
  from \<open>low\<close> (included) to \<open>high\<close> (excluded). The generator state is the stream of raw
  draws still to come; a draw reduces the next raw value into the range. Every call in
  the source has \<open>low < high\<close>. The array of one element that the call returns is
  modelled by its element.
\<close>

type_synonym rng = "nat stream"

definition randint :: "int \<Rightarrow> int \<Rightarrow> rng \<Rightarrow> int \<times> rng" where
  "randint low high g = (low + int (shd g) mod (high - low), stl g)"

text \<open>\<^verbatim>\<open>int(x)\<close> on a float truncates towards zero.\<close>

definition py_int :: "real \<Rightarrow> int" where
  "py_int r = (if 0 \<le> r then \<lfloor>r\<rfloor> else \<lceil>r\<rceil>)"

text \<open>\<^verbatim>\<open>math.dist(p, q)\<close>: the Euclidean distance of two points of the same dimension.\<close>

definition math_dist :: "real list \<Rightarrow> real list \<Rightarrow> error + real" where
  "math_dist p q =
     (if length p = length q
      then Inr (sqrt (sum_list (map (\<lambda>(a, b). (a - b)\<^sup>2) (zip p q))))
      else Inl ValueError)"

text \<open>\<^verbatim>\<open>math.radians\<close>: degrees to radians.\<close>

definition radians :: "real \<Rightarrow> real" where
  "radians d = d * pi / 180"

text \<open>
  \<^verbatim>\<open>np.linspace(start, stop, num)\<close>: \<open>num\<close> evenly spaced samples from \<open>start\<close> to
  \<open>stop\<close>, both included (for \<open>num = 1\<close> the single sample is \<open>start\<close>).
\<close>

definition linspace :: "real \<Rightarrow> real \<Rightarrow> int \<Rightarrow> real list" where
  "linspace start stop num =
     map (\<lambda>i. start + real i * ((stop - start) / real_of_int (num - 1))) [0..<nat num]"

text \<open>Unpacking \<^verbatim>\<open>a, b, c, d = xs\<close> and reading \<^verbatim>\<open>xs[i]\<close>.\<close>

fun unpack4 :: "real list \<Rightarrow> error + real \<times> real \<times> real \<times> real" where
  "unpack4 [a, b, c, d] = Inr (a, b, c, d)"
| "unpack4 _ = Inl ValueError"

definition getitem :: "real list \<Rightarrow> nat \<Rightarrow> error + real" where
  "getitem xs i = (if i < length xs then Inr (xs ! i) else Inl IndexError)"

subsection \<open>Box patterns\<close>

text \<open>
  Lines 516 to 520 and 610 to 614: the two sample counts of a region. The two generators
  differ in the constant \<^verbatim>\<open>interval\<close> only, which is the first argument here.
\<close>

definition box_instances ::
  "real \<Rightarrow> real \<Rightarrow> real \<Rightarrow> real \<Rightarrow> real \<Rightarrow> real \<Rightarrow> real \<Rightarrow> error + int \<times> int" where
  "box_instances interval x11 y11 x12 y12 x21 y21 =
     (case math_dist [x11, y11] [x12, y12] of Inl e \<Rightarrow> Inl e | Inr w \<Rightarrow>
       (case math_dist [x11, y11] [x21, y21] of Inl e \<Rightarrow> Inl e | Inr h \<Rightarrow>
          Inr (py_int (w / interval) + 2, py_int (h / interval) + 1)))"

text \<open>
  One \<^verbatim>\<open>for i in range(w_instance)\<close> loop of \<^verbatim>\<open>generate_train_box\<close>. The source has
  four copies of it that differ in the yaw constant of the rotation.
\<close>

fun train_box_loop ::
  "nat list \<Rightarrow> real list \<Rightarrow> real list \<Rightarrow> real list \<Rightarrow> real list \<Rightarrow> real \<Rightarrow> real \<Rightarrow> real \<Rightarrow> int
     \<Rightarrow> SequenceKey list \<times> int \<Rightarrow> SequenceKey list \<times> int" where
  "train_box_loop [] x_start y_start x_end y_end z pitch yaw h_instance (camera_trans, current_frame) =
     (camera_trans, current_frame)"
| "train_box_loop (i # rest) x_start y_start x_end y_end z pitch yaw h_instance (camera_trans, current_frame) =
     (let camera_trans1 = camera_trans @
            [\<lparr>frame = current_frame, location = (x_start ! i, y_start ! i, z),
              rotation = (0, pitch, yaw)\<rparr>];
          current_frame1 = current_frame + h_instance;
          camera_trans2 = camera_trans1 @
            [\<lparr>frame = current_frame1, location = (x_end ! i, y_end ! i, z),
              rotation = (0, pitch, yaw)\<rparr>];
          current_frame2 = current_frame1 + 1
      in train_box_loop rest x_start y_start x_end y_end z pitch yaw h_instance
           (camera_trans2, current_frame2))"

definition generate_train_box ::
  "addr \<Rightarrow> addr \<Rightarrow> real \<Rightarrow> int \<Rightarrow> store \<Rightarrow> (error + SequenceKey list \<times> int) \<times> store" where
  "generate_train_box line1 line2 z current_frame s =
     (case unpack4 (s line1) of Inl e \<Rightarrow> (Inl e, s) | Inr (x11, y11, x12, y12) \<Rightarrow>
     (case unpack4 (s line2) of Inl e \<Rightarrow> (Inl e, s) | Inr (x21, y21, x22, y22) \<Rightarrow>
      if y11 \<noteq> y12 then (Inl AssertionError, s)
      else if y21 \<noteq> y22 then (Inl AssertionError, s)
      else if x11 \<noteq> x21 then (Inl AssertionError, s)
      else if x12 \<noteq> x22 then (Inl AssertionError, s)
      else
        (case box_instances 4000 x11 y11 x12 y12 x21 y21 of Inl e \<Rightarrow> (Inl e, s)
         | Inr (w_instance, h_instance) \<Rightarrow>
           (let x_start = linspace x11 x12 w_instance;
                y_start = linspace y11 y12 w_instance;
                x_end = linspace x21 x22 w_instance;
                y_end = linspace y21 y22 w_instance;
                pitch = (if z > 25000 then - 60 else - 45);
                lanes = [0..<nat w_instance];
                r0 = train_box_loop lanes x_start y_start x_end y_end z pitch 0 h_instance
                       ([], current_frame);
                r1 = train_box_loop lanes x_start y_start x_end y_end z pitch 90 h_instance r0;
                r2 = train_box_loop lanes x_start y_start x_end y_end z pitch 180 h_instance r1;
                r3 = train_box_loop lanes x_start y_start x_end y_end z pitch 270 h_instance r2
            in (Inr r3, s)))))"

text \<open>
  The loop of \<^verbatim>\<open>generate_test_box\<close>: each lane draws its pitch, then its yaw.
\<close>

fun test_box_loop ::
  "nat list \<Rightarrow> real list \<Rightarrow> real list \<Rightarrow> real list \<Rightarrow> real list \<Rightarrow> real \<Rightarrow> int
     \<Rightarrow> SequenceKey list \<times> int \<times> rng \<Rightarrow> SequenceKey list \<times> int \<times> rng" where
  "test_box_loop [] x_start y_start x_end y_end z h_instance (camera_trans, current_frame, g) =
     (camera_trans, current_frame, g)"
| "test_box_loop (i # rest) x_start y_start x_end y_end z h_instance (camera_trans, current_frame, g) =
     (let (pitch, g1) = randint (- 60) (- 44) g;
          (yaw, g2) = randint 0 361 g1;
          camera_trans1 = camera_trans @
            [\<lparr>frame = current_frame, location = (x_start ! i, y_start ! i, z),
              rotation = (0, real_of_int pitch, real_of_int yaw)\<rparr>];
          current_frame1 = current_frame + h_instance;
          camera_trans2 = camera_trans1 @
            [\<lparr>frame = current_frame1, location = (x_end ! i, y_end ! i, z),
              rotation = (0, real_of_int pitch, real_of_int yaw)\<rparr>];
          current_frame2 = current_frame1 + 1
      in test_box_loop rest x_start y_start x_end y_end z h_instance
           (camera_trans2, current_frame2, g2))"

definition generate_test_box ::
  "addr \<Rightarrow> addr \<Rightarrow> real \<Rightarrow> int \<Rightarrow> store \<Rightarrow> rng
     \<Rightarrow> (error + SequenceKey list \<times> int) \<times> store \<times> rng" where
  "generate_test_box line1 line2 z current_frame s g =
     (case unpack4 (s line1) of Inl e \<Rightarrow> (Inl e, s, g) | Inr (x11, y11, x12, y12) \<Rightarrow>
     (case unpack4 (s line2) of Inl e \<Rightarrow> (Inl e, s, g) | Inr (x21, y21, x22, y22) \<Rightarrow>
      if y11 \<noteq> y12 then (Inl AssertionError, s, g)
      else if y21 \<noteq> y22 then (Inl AssertionError, s, g)
      else if x11 \<noteq> x21 then (Inl AssertionError, s, g)
      else if x12 \<noteq> x22 then (Inl AssertionError, s, g)
      else
        (case box_instances 4501 x11 y11 x12 y12 x21 y21 of Inl e \<Rightarrow> (Inl e, s, g)
         | Inr (w_instance, h_instance) \<Rightarrow>
           (let x_start = linspace x11 x12 w_instance;
                y_start = linspace y11 y12 w_instance;
                x_end = linspace x21 x22 w_instance;
                y_end = linspace y21 y22 w_instance;
                (camera_trans, current_frame1, g1) =
                  test_box_loop [0..<nat w_instance] x_start y_start x_end y_end z h_instance
                    ([], current_frame, g)
            in (Inr (camera_trans, current_frame1), s, g1)))))"

subsection \<open>Line patterns\<close>

text \<open>
  Lines 652 to 749 of \<^verbatim>\<open>generate_train_line\<close> and lines 762 to 859 of
  \<^verbatim>\<open>generate_test_line\<close> are the same text: ten appends, the cursor advanced by
  \<^verbatim>\<open>instance\<close> after each keyframe at \<^verbatim>\<open>point1\<close> and by 1 after each keyframe at
  \<^verbatim>\<open>point2\<close>. The block that would add a pose of pitch -90 is commented out in both.
  Reading \<^verbatim>\<open>point1[1]\<close> or \<^verbatim>\<open>point2[1]\<close> of a shorter list raises.
\<close>

definition line_sweep ::
  "real list \<Rightarrow> real list \<Rightarrow> real \<Rightarrow> real \<Rightarrow> int \<Rightarrow> int \<Rightarrow> error + SequenceKey list \<times> int" where
  "line_sweep point1 point2 z yaw instance current_frame =
     (case getitem point1 0 of Inl e \<Rightarrow> Inl e | Inr p10 \<Rightarrow>
     (case getitem point1 1 of Inl e \<Rightarrow> Inl e | Inr p11 \<Rightarrow>
     (case getitem point2 0 of Inl e \<Rightarrow> Inl e | Inr p20 \<Rightarrow>
     (case getitem point2 1 of Inl e \<Rightarrow> Inl e | Inr p21 \<Rightarrow>
        (let f0 = current_frame;
             k0 = \<lparr>frame = f0, location = (p10, p11, z), rotation = (0, 0, yaw)\<rparr>;
             f1 = f0 + instance;
             k1 = \<lparr>frame = f1, location = (p20, p21, z), rotation = (0, 0, yaw)\<rparr>;
             f2 = f1 + 1;
             k2 = \<lparr>frame = f2, location = (p10, p11, z), rotation = (0, 0, 90 + yaw)\<rparr>;
             f3 = f2 + instance;
             k3 = \<lparr>frame = f3, location = (p20, p21, z), rotation = (0, 0, 90 + yaw)\<rparr>;
             f4 = f3 + 1;
             k4 = \<lparr>frame = f4, location = (p10, p11, z), rotation = (0, 0, 180 + yaw)\<rparr>;
             f5 = f4 + instance;
             k5 = \<lparr>frame = f5, location = (p20, p21, z), rotation = (0, 0, 180 + yaw)\<rparr>;
             f6 = f5 + 1;
             k6 = \<lparr>frame = f6, location = (p10, p11, z), rotation = (0, 0, 270 + yaw)\<rparr>;
             f7 = f6 + instance;
             k7 = \<lparr>frame = f7, location = (p20, p21, z), rotation = (0, 0, 270 + yaw)\<rparr>;
             f8 = f7 + 1;
             k8 = \<lparr>frame = f8, location = (p10, p11, z), rotation = (0, 90, yaw)\<rparr>;
             f9 = f8 + instance;
             k9 = \<lparr>frame = f9, location = (p20, p21, z), rotation = (0, 90, yaw)\<rparr>;
             f10 = f9 + 1
         in Inr ([k0, k1, k2, k3, k4, k5, k6, k7, k8, k9], f10))))))"

definition generate_train_line ::
  "addr \<Rightarrow> addr \<Rightarrow> real \<Rightarrow> real \<Rightarrow> int \<Rightarrow> bool \<Rightarrow> store
     \<Rightarrow> (error + SequenceKey list \<times> int) \<times> store" where
  "generate_train_line point1 point2 z yaw current_frame dense s =
     (case math_dist (s point1) (s point2) of Inl e \<Rightarrow> (Inl e, s) | Inr distance \<Rightarrow>
        (let instance = (if dense then py_int (distance / 100) + 1
                         else py_int (distance / 500) + 1)
         in (line_sweep (s point1) (s point2) z yaw instance current_frame, s)))"

text \<open>
  \<^verbatim>\<open>generate_test_line\<close> first assigns to the elements of its two argument lists
  (lines 753 to 756), one element after the other, so each assignment is a store update
  and a list that is too short stops the call after the earlier assignments took place.
\<close>

definition generate_test_line ::
  "addr \<Rightarrow> addr \<Rightarrow> real \<Rightarrow> real \<Rightarrow> int \<Rightarrow> store \<Rightarrow> rng
     \<Rightarrow> (error + SequenceKey list \<times> int) \<times> store \<times> rng" where
  "generate_test_line point1 point2 z yaw current_frame s g =
     (case getitem (s point1) 0 of Inl e \<Rightarrow> (Inl e, s, g) | Inr a \<Rightarrow>
     (let s1 = s(point1 := (s point1)[0 := a + cos (radians yaw) * 570]) in
     (case getitem (s1 point1) 1 of Inl e \<Rightarrow> (Inl e, s1, g) | Inr b \<Rightarrow>
     (let s2 = s1(point1 := (s1 point1)[1 := b + sin (radians yaw) * 570]) in
     (case getitem (s2 point2) 0 of Inl e \<Rightarrow> (Inl e, s2, g) | Inr c \<Rightarrow>
     (let s3 = s2(point2 := (s2 point2)[0 := c - cos (radians yaw) * 570]) in
     (case getitem (s3 point2) 1 of Inl e \<Rightarrow> (Inl e, s3, g) | Inr d \<Rightarrow>
     (let s4 = s3(point2 := (s3 point2)[1 := d - sin (radians yaw) * 570]);
          (yaw1, g1) = randint 0 90 g
      in (case math_dist (s4 point1) (s4 point2) of Inl e \<Rightarrow> (Inl e, s4, g1)
          | Inr distance \<Rightarrow>
            (let instance = py_int (distance / 4830) + 1
             in (line_sweep (s4 point1) (s4 point2) z (real_of_int yaw1) instance current_frame,
                 s4, g1)))))))))))"

subsection \<open>Auxiliary definitions\<close>

text \<open>
  The two keyframes that lane \<open>i\<close> contributes to a pass that began at frame \<open>f\<close>:
  one at the start point, one \<open>h_instance\<close> frames later at the end point, both with the
  rotation \<open>rot\<close>. The next lane begins one frame after that.
\<close>

definition lane_keys ::
  "real list \<Rightarrow> real list \<Rightarrow> real list \<Rightarrow> real list \<Rightarrow> real \<Rightarrow> real \<times> real \<times> real \<Rightarrow> int \<Rightarrow> int
     \<Rightarrow> nat \<Rightarrow> SequenceKey list" where
  "lane_keys x_start y_start x_end y_end z rot h_instance f i =
     [\<lparr>frame = f + int i * (h_instance + 1), location = (x_start ! i, y_start ! i, z),
       rotation = rot\<rparr>,
      \<lparr>frame = f + int i * (h_instance + 1) + h_instance, location = (x_end ! i, y_end ! i, z),
       rotation = rot\<rparr>]"

text \<open>
  The same for the test variant, where lane \<open>i\<close> takes raw draw \<open>2 * i\<close> for its pitch
  and raw draw \<open>2 * i + 1\<close> for its yaw.
\<close>

definition test_lane_keys ::
  "real list \<Rightarrow> real list \<Rightarrow> real list \<Rightarrow> real list \<Rightarrow> real \<Rightarrow> int \<Rightarrow> int \<Rightarrow> rng \<Rightarrow> nat
     \<Rightarrow> SequenceKey list" where
  "test_lane_keys x_start y_start x_end y_end z h_instance f g i =
     lane_keys x_start y_start x_end y_end z
       (0, real_of_int (fst (randint (- 60) (- 44) (sdrop (2 * i) g))),
           real_of_int (fst (randint 0 361 (sdrop (2 * i + 1) g)))) h_instance f i"

text \<open>
  The invariant of the cursor: the keyframes emitted since the call began at frame \<open>c0\<close>
  have strictly increasing frames from \<open>c0\<close> on, all below the cursor \<open>cf\<close>, and the
  cursor is one past the last of them.
\<close>

definition frames_inv :: "int \<Rightarrow> SequenceKey list \<Rightarrow> int \<Rightarrow> bool" where
  "frames_inv c0 ct cf \<longleftrightarrow>
     sorted_wrt (<) (map frame ct) \<and> (\<forall>k \<in> set ct. c0 \<le> frame k \<and> frame k < cf) \<and>
     (if ct = [] then cf = c0 else frame (hd ct) = c0 \<and> frame (last ct) + 1 = cf)"

section \<open>Facts about the library functions\<close>

lemma py_int_nonneg: "0 \<le> r \<Longrightarrow> py_int r = \<lfloor>r\<rfloor>"
  by (simp add: py_int_def)

lemma math_dist_pair: "math_dist [a, b] [c, d] = Inr (sqrt ((a - c)\<^sup>2 + (b - d)\<^sup>2))"
  by (simp add: math_dist_def)

lemma math_dist_same_y: "math_dist [a, c] [b, c] = Inr \<bar>a - b\<bar>"
  by (simp add: math_dist_def)

lemma math_dist_same_x: "math_dist [a, b] [a, c] = Inr \<bar>b - c\<bar>"
  by (simp add: math_dist_def)

lemma math_dist_nonneg: "math_dist p q = Inr d \<Longrightarrow> 0 \<le> d"
  by (auto simp: math_dist_def split: if_splits intro!: sum_list_nonneg)

text \<open>
  The loops read \<^verbatim>\<open>x_start[i]\<close> for \<open>i\<close> in \<^verbatim>\<open>range(w_instance)\<close>, and each array has
  \<open>w_instance\<close> samples, so every read of the loops is in range.
\<close>

lemma length_linspace: "length (linspace a b n) = nat n"
  by (simp add: linspace_def)

lemma randint_fst: "fst (randint low high g) = low + int (shd g) mod (high - low)"
  by (simp add: randint_def)

lemma randint_snd: "snd (randint low high g) = stl g"
  by (simp add: randint_def)

lemma randint_range:
  assumes "low < high"
  shows "low \<le> fst (randint low high g)" "fst (randint low high g) < high"
proof -
  have "0 < high - low" using assms by simp
  then have "0 \<le> int (shd g) mod (high - low)" "int (shd g) mod (high - low) < high - low"
    by (simp_all only: pos_mod_sign pos_mod_bound)
  then show "low \<le> fst (randint low high g)" "fst (randint low high g) < high"
    by (simp_all add: randint_def)
qed

lemma randint_attains:
  assumes "low \<le> v" "v < high"
  shows "fst (randint low high (sconst (nat (v - low)))) = v"
  using assms by (simp add: randint_def)

section \<open>The sample counts\<close>

lemma box_instances_eq:
  "box_instances interval x11 y11 x12 y12 x21 y21 =
     Inr (py_int (sqrt ((x11 - x12)\<^sup>2 + (y11 - y12)\<^sup>2) / interval) + 2,
          py_int (sqrt ((x11 - x21)\<^sup>2 + (y11 - y21)\<^sup>2) / interval) + 1)"
  by (simp add: box_instances_def math_dist_pair)

lemma box_instances_aligned:
  "box_instances interval x11 y11 x12 y11 x11 y21 =
     Inr (py_int (\<bar>x11 - x12\<bar> / interval) + 2, py_int (\<bar>y11 - y21\<bar> / interval) + 1)"
  by (simp add: box_instances_def math_dist_same_x math_dist_same_y)

lemma box_instances_bounds:
  assumes "0 < interval" "box_instances interval x11 y11 x12 y12 x21 y21 = Inr (w, h)"
  shows "2 \<le> w" "1 \<le> h"
  using assms by (auto simp: box_instances_eq py_int_def)

lemma box_instances_total:
  assumes "0 < interval"
  shows "\<exists>w h. box_instances interval a b c d e f = Inr (w, h) \<and> 2 \<le> w \<and> 1 \<le> h"
  using assms by (simp add: box_instances_eq py_int_def)

section \<open>The loops of the box generators\<close>

lemma train_box_loop_append:
  "train_box_loop (xs @ ys) xs0 ys0 xe ye z p y h acc =
     train_box_loop ys xs0 ys0 xe ye z p y h (train_box_loop xs xs0 ys0 xe ye z p y h acc)"
  by (induction xs xs0 ys0 xe ye z p y h acc rule: train_box_loop.induct) (simp_all add: Let_def)

lemma train_box_loop_range:
  "train_box_loop [0..<n] xs0 ys0 xe ye z p y h (ct, cf) =
     (ct @ concat (map (lane_keys xs0 ys0 xe ye z (0, p, y) h cf) [0..<n]), cf + int n * (h + 1))"
proof (induction n)
  case 0
  show ?case by simp
next
  case (Suc n)
  show ?case
    by (simp add: train_box_loop_append Suc Let_def lane_keys_def algebra_simps)
qed

lemma train_box_loop_length:
  "length (fst (train_box_loop js xs0 ys0 xe ye z p y h (ct, cf))) = length ct + 2 * length js"
  by (induction js arbitrary: ct cf) (simp_all add: Let_def)

lemma test_box_loop_append:
  "test_box_loop (xs @ ys) xs0 ys0 xe ye z h acc =
     test_box_loop ys xs0 ys0 xe ye z h (test_box_loop xs xs0 ys0 xe ye z h acc)"
  by (induction xs xs0 ys0 xe ye z h acc rule: test_box_loop.induct)
     (simp_all add: Let_def split: prod.splits)

lemma test_box_loop_range:
  "test_box_loop [0..<n] xs0 ys0 xe ye z h (ct, cf, g) =
     (ct @ concat (map (test_lane_keys xs0 ys0 xe ye z h cf g) [0..<n]),
      cf + int n * (h + 1), sdrop (2 * n) g)"
proof (induction n)
  case 0
  show ?case by simp
next
  case (Suc n)
  show ?case
    by (simp add: test_box_loop_append Suc Let_def lane_keys_def test_lane_keys_def
        randint_def algebra_simps split: prod.splits)
qed

lemma test_box_loop_length:
  "length (fst (test_box_loop js xs0 ys0 xe ye z h (ct, cf, g))) = length ct + 2 * length js"
  by (induction js arbitrary: ct cf g) (simp_all add: Let_def split: prod.splits)

lemma length_concat_lane_keys:
  "length (concat (map (lane_keys a b c d z rot h f) [0..<n])) = 2 * n"
  by (induction n) (simp_all add: lane_keys_def)

lemma pitch_concat_lane_keys:
  "map (\<lambda>k. fst (snd (rotation k))) (concat (map (lane_keys a b c d z (r, p, y) h f) [0..<n]))
     = replicate (2 * n) p"
  by (induction n) (simp_all add: lane_keys_def replicate_app_Cons_same)

section \<open>Closed forms of the generators on well-formed input\<close>

lemma generate_train_box_aligned:
  assumes "s line1 = [x11, y11, x12, y11]" "s line2 = [x11, y21, x12, y21]"
    and "box_instances 4000 x11 y11 x12 y11 x11 y21 = Inr (w, h)"
    and "xs = linspace x11 x12 w" "y1s = linspace y11 y11 w" "y2s = linspace y21 y21 w"
    and "p = (if z > 25000 then - 60 else - 45)"
  shows "generate_train_box line1 line2 z cf s =
     (Inr (concat (map (lane_keys xs y1s xs y2s z (0, p, 0) h cf) [0..<nat w])
         @ concat (map (lane_keys xs y1s xs y2s z (0, p, 90) h (cf + w * (h + 1))) [0..<nat w])
         @ concat (map (lane_keys xs y1s xs y2s z (0, p, 180) h (cf + 2 * w * (h + 1))) [0..<nat w])
         @ concat (map (lane_keys xs y1s xs y2s z (0, p, 270) h (cf + 3 * w * (h + 1))) [0..<nat w]),
         cf + 4 * w * (h + 1)), s)"
proof -
  have w: "2 \<le> w" using box_instances_bounds(1)[OF _ assms(3)] by simp
  show ?thesis
    unfolding generate_train_box_def using w
    by (simp add: assms Let_def train_box_loop_range algebra_simps)
qed

lemma generate_test_box_aligned:
  assumes "s line1 = [x11, y11, x12, y11]" "s line2 = [x11, y21, x12, y21]"
    and "box_instances 4501 x11 y11 x12 y11 x11 y21 = Inr (w, h)"
  shows "generate_test_box line1 line2 z cf s g =
     (Inr (concat (map (test_lane_keys (linspace x11 x12 w) (linspace y11 y11 w)
                          (linspace x11 x12 w) (linspace y21 y21 w) z h cf g) [0..<nat w]),
           cf + w * (h + 1)), s, sdrop (2 * nat w) g)"
proof -
  have w: "2 \<le> w" using box_instances_bounds(1)[OF _ assms(3)] by simp
  show ?thesis
    unfolding generate_test_box_def using w
    by (simp add: assms Let_def test_box_loop_range algebra_simps)
qed

lemma line_sweep_pair:
  "line_sweep [x1, y1] [x2, y2] z yaw n cf =
     Inr ([\<lparr>frame = cf, location = (x1, y1, z), rotation = (0, 0, yaw)\<rparr>,
           \<lparr>frame = cf + n, location = (x2, y2, z), rotation = (0, 0, yaw)\<rparr>,
           \<lparr>frame = cf + n + 1, location = (x1, y1, z), rotation = (0, 0, 90 + yaw)\<rparr>,
           \<lparr>frame = cf + 2 * n + 1, location = (x2, y2, z), rotation = (0, 0, 90 + yaw)\<rparr>,
           \<lparr>frame = cf + 2 * n + 2, location = (x1, y1, z), rotation = (0, 0, 180 + yaw)\<rparr>,
           \<lparr>frame = cf + 3 * n + 2, location = (x2, y2, z), rotation = (0, 0, 180 + yaw)\<rparr>,
           \<lparr>frame = cf + 3 * n + 3, location = (x1, y1, z), rotation = (0, 0, 270 + yaw)\<rparr>,
           \<lparr>frame = cf + 4 * n + 3, location = (x2, y2, z), rotation = (0, 0, 270 + yaw)\<rparr>,
           \<lparr>frame = cf + 4 * n + 4, location = (x1, y1, z), rotation = (0, 90, yaw)\<rparr>,
           \<lparr>frame = cf + 5 * n + 4, location = (x2, y2, z), rotation = (0, 90, yaw)\<rparr>],
          cf + 5 * (n + 1))"
  by (simp add: line_sweep_def getitem_def Let_def)

section \<open>The cursor invariant\<close>

lemma frames_inv_Nil: "frames_inv c0 [] c0"
  by (simp add: frames_inv_def)

lemma frames_inv_step:
  assumes "frames_inv c0 ct cf" "1 \<le> h"
  shows "frames_inv c0 (ct @ [\<lparr>frame = cf, location = l1, rotation = r1\<rparr>,
                               \<lparr>frame = cf + h, location = l2, rotation = r2\<rparr>]) (cf + h + 1)"
proof (cases "ct = []")
  case True
  with assms show ?thesis by (simp add: frames_inv_def)
next
  case False
  from assms(1) have srt: "sorted_wrt (<) (map frame ct)"
    and bnd: "\<forall>k \<in> set ct. c0 \<le> frame k \<and> frame k < cf"
    and hd: "frame (hd ct) = c0"
    using False by (simp_all add: frames_inv_def)
  from False have "hd ct \<in> set ct" by simp
  with bnd hd have c0: "c0 < cf" by fastforce
  have "sorted_wrt (<) (map frame ct @ [cf, cf + h])"
    using srt bnd assms(2) by (auto simp: sorted_wrt_append)
  moreover have "\<forall>k \<in> set ct. c0 \<le> frame k \<and> frame k < cf + h + 1"
    using bnd assms(2) by auto
  ultimately show ?thesis
    using False hd c0 assms(2) by (simp add: frames_inv_def)
qed

lemma train_box_loop_frames:
  assumes "1 \<le> h" "frames_inv c0 ct cf"
  shows "frames_inv c0 (fst (train_box_loop js xs0 ys0 xe ye z p y h (ct, cf)))
                       (snd (train_box_loop js xs0 ys0 xe ye z p y h (ct, cf)))"
  using assms(2)
proof (induction js arbitrary: ct cf)
  case Nil
  then show ?case by simp
next
  case (Cons j js)
  from frames_inv_step[OF Cons.prems assms(1)]
  show ?case by (simp add: Let_def Cons.IH)
qed

lemma test_box_loop_frames:
  assumes "1 \<le> h" "frames_inv c0 ct cf"
  shows "frames_inv c0 (fst (test_box_loop js xs0 ys0 xe ye z h (ct, cf, g)))
                       (fst (snd (test_box_loop js xs0 ys0 xe ye z h (ct, cf, g))))"
  using assms(2)
proof (induction js arbitrary: ct cf g)
  case Nil
  then show ?case by simp
next
  case (Cons j js)
  from frames_inv_step[OF Cons.prems assms(1)]
  show ?case by (simp add: Let_def Cons.IH split: prod.splits)
qed

lemma generate_train_box_frames:
  assumes "fst (generate_train_box line1 line2 z cf s) = Inr (keys, cf')"
  shows "frames_inv cf keys cf' \<and> keys \<noteq> []"
proof -
  obtain x11 y11 x12 y12 where l1: "unpack4 (s line1) = Inr (x11, y11, x12, y12)"
    using assms by (auto simp: generate_train_box_def split: sum.splits)
  obtain x21 y21 x22 y22 where l2: "unpack4 (s line2) = Inr (x21, y21, x22, y22)"
    using assms l1 by (auto simp: generate_train_box_def split: sum.splits)
  obtain w h where wh: "box_instances 4000 x11 y11 x12 y12 x21 y21 = Inr (w, h)"
    and w: "2 \<le> w" and h: "1 \<le> h"
    using box_instances_total[of 4000] by force
  define loop where "loop = (\<lambda>yaw. train_box_loop [0..<nat w] (linspace x11 x12 w)
     (linspace y11 y12 w) (linspace x21 x22 w) (linspace y21 y22 w) z
     (if z > 25000 then - 60 else - 45) yaw h)"
  have res: "(keys, cf') = loop 270 (loop 180 (loop 90 (loop 0 ([], cf))))"
    using assms l1 l2 wh
    by (simp add: generate_train_box_def loop_def Let_def split: if_splits)
  have step: "frames_inv cf (fst (loop yaw st)) (snd (loop yaw st))"
    if "frames_inv cf (fst st) (snd st)" for yaw st
    using train_box_loop_frames[OF h, of cf "fst st" "snd st"] that by (simp add: loop_def)
  have len: "length (fst (loop yaw st)) = length (fst st) + 2 * nat w" for yaw st
    using train_box_loop_length[of _ _ _ _ _ _ _ _ _ "fst st" "snd st"] by (simp add: loop_def)
  have "frames_inv cf (fst (loop 270 (loop 180 (loop 90 (loop 0 ([], cf))))))
     (snd (loop 270 (loop 180 (loop 90 (loop 0 ([], cf))))))"
    by (intro step) (simp add: frames_inv_Nil)
  moreover have "length (fst (loop 270 (loop 180 (loop 90 (loop 0 ([], cf)))))) = 8 * nat w"
    by (simp add: len)
  ultimately show ?thesis
    using w by (auto simp flip: res)
qed

section \<open>The claims\<close>

subsection \<open>Sample counts\<close>

text \<open>
  Claim C6. For a region whose edge has length \<open>width\<close> and whose two edges are \<open>height\<close>
  apart, and a positive interval, the sampler computes
  \<open>w_count = floor (width / interval) + 2\<close> and \<open>h_count = floor (height / interval) + 1\<close>,
  so \<open>w_count\<close> is at least 2 and \<open>h_count\<close> at least 1, also when the region has no
  width or no height. For a segment of length \<open>distance\<close>,
  \<open>instance = floor (distance / interval) + 1\<close> is at least 1, and
  \<^verbatim>\<open>generate_train_line\<close> runs its sweep with interval 100 when \<^verbatim>\<open>dense\<close> is set and
  with interval 500 otherwise.
\<close>

theorem sampler_counts:
  assumes "0 < interval"
    and "math_dist [x11, y11] [x12, y12] = Inr width"
    and "math_dist [x11, y11] [x21, y21] = Inr height"
    and "math_dist (s point1) (s point2) = Inr distance"
  shows "box_instances interval x11 y11 x12 y12 x21 y21 =
           Inr (\<lfloor>width / interval\<rfloor> + 2, \<lfloor>height / interval\<rfloor> + 1)
       \<and> 2 \<le> \<lfloor>width / interval\<rfloor> + 2 \<and> 1 \<le> \<lfloor>height / interval\<rfloor> + 1
       \<and> py_int (distance / interval) + 1 = \<lfloor>distance / interval\<rfloor> + 1
       \<and> 1 \<le> \<lfloor>distance / interval\<rfloor> + 1
       \<and> generate_train_line point1 point2 z yaw current_frame True s =
           (line_sweep (s point1) (s point2) z yaw (\<lfloor>distance / 100\<rfloor> + 1) current_frame, s)
       \<and> generate_train_line point1 point2 z yaw current_frame False s =
           (line_sweep (s point1) (s point2) z yaw (\<lfloor>distance / 500\<rfloor> + 1) current_frame, s)"
proof -
  have w: "0 \<le> width" and h: "0 \<le> height" and d: "0 \<le> distance"
    using assms(2-4) by (auto dest: math_dist_nonneg)
  with assms(1) have q: "0 \<le> width / interval" "0 \<le> height / interval"
    "0 \<le> distance / interval" "0 \<le> distance / 100" "0 \<le> distance / 500"
    by simp_all
  have box: "box_instances interval x11 y11 x12 y12 x21 y21 =
      Inr (\<lfloor>width / interval\<rfloor> + 2, \<lfloor>height / interval\<rfloor> + 1)"
    using q by (simp add: box_instances_def assms(2,3) py_int_nonneg)
  have line: "generate_train_line point1 point2 z yaw current_frame dense s =
      (line_sweep (s point1) (s point2) z yaw
         (\<lfloor>distance / (if dense then 100 else 500)\<rfloor> + 1) current_frame, s)" for dense
    using q by (simp add: generate_train_line_def assms(4) py_int_nonneg)
  show ?thesis
    using q box line[of True] line[of False] by (simp add: py_int_nonneg)
qed

theorem sampler_counts_witness:
  "box_instances 4000 (- 100000) 0 (- 12000) 0 (- 100000) 38000 = Inr (24, 10)
   \<and> box_instances 4000 7 5 7 5 7 5 = Inr (2, 1)
   \<and> generate_train_line 0 1 300 0 0 False (\<lambda>a. if a = 0 then [0, 0] else [1000, 0]) =
       (line_sweep [0, 0] [1000, 0] 300 0 3 0, \<lambda>a. if a = 0 then [0, 0] else [1000, 0])"
proof -
  have a: "(0::real) < 4000" by simp
  have b: "math_dist [- 100000, 0] [- 12000, 0] = Inr 88000"
    by (simp add: math_dist_same_y)
  have c: "math_dist [- 100000, 0] [- 100000, 38000] = Inr 38000"
    by (simp add: math_dist_same_x)
  have d: "math_dist ((\<lambda>a::addr. if a = 0 then [0, 0] else [1000, 0]) 0)
     ((\<lambda>a::addr. if a = 0 then [0, 0] else [1000, 0]) 1) = Inr 1000"
    by (simp add: math_dist_same_y)
  have e: "math_dist [7, 5] [7, 5] = Inr 0"
    by (simp add: math_dist_same_y)
  show ?thesis
    using sampler_counts[OF a b c d, of 300 0 0] sampler_counts[OF a e e d, of 300 0 0]
    by simp
qed

subsection \<open>The box pattern, train variant\<close>

text \<open>
  Claim C1. For a region given by two axis-aligned edges, an altitude \<open>z\<close> and a starting
  cursor, \<^verbatim>\<open>generate_train_box\<close> emits, for each of the yaw values 0, 90, 180, 270 in
  this order, one pass over the \<open>w_count\<close> lanes in lane order. Lane \<open>i\<close> of pass \<open>k\<close>
  emits a keyframe at its start point at the cursor, which at that moment is
  \<open>cursor + (k * w_count + i) * (h_count + 1)\<close>, advances the cursor by \<open>h_count\<close>, emits a
  keyframe at its end point with the same rotation, and advances the cursor by 1. Every
  rotation is \<open>(0, pitch, yaw)\<close> with one pitch for the whole call (-60 above altitude
  25000, -45 otherwise), the list has \<open>4 * w_count * 2\<close> keyframes, and the store is
  returned as it was.
\<close>

theorem generate_train_box_sweep:
  assumes "s line1 = [x11, y11, x12, y12]" and "s line2 = [x21, y21, x22, y22]"
    and "y11 = y12" and "y21 = y22" and "x11 = x21" and "x12 = x22"
  shows "\<exists>w_count h_count pitch keys.
      box_instances 4000 x11 y11 x12 y12 x21 y21 = Inr (w_count, h_count)
    \<and> pitch = (if 25000 < z then - 60 else - 45)
    \<and> generate_train_box line1 line2 z cursor s =
        (Inr (keys, cursor + 4 * w_count * (h_count + 1)), s)
    \<and> keys = concat (map (\<lambda>(k, yaw). concat (map (\<lambda>i.
         [\<lparr>frame = cursor + (k * w_count + int i) * (h_count + 1),
           location = (linspace x11 x12 w_count ! i, linspace y11 y12 w_count ! i, z),
           rotation = (0, pitch, yaw)\<rparr>,
          \<lparr>frame = cursor + (k * w_count + int i) * (h_count + 1) + h_count,
           location = (linspace x21 x22 w_count ! i, linspace y21 y22 w_count ! i, z),
           rotation = (0, pitch, yaw)\<rparr>]) [0..<nat w_count]))
        [(0, 0), (1, 90), (2, 180), (3, 270)])
    \<and> int (length keys) = 4 * w_count * 2"
proof -
  obtain w h where wh: "box_instances 4000 x11 y11 x12 y11 x11 y21 = Inr (w, h)"
    and w: "2 \<le> w"
    using box_instances_total[of 4000] by force
  from assms have eqs: "y12 = y11" "y22 = y21" "x21 = x11" "x22 = x12"
    by simp_all
  from assms have l1: "s line1 = [x11, y11, x12, y11]" and l2: "s line2 = [x11, y21, x12, y21]"
    by simp_all
  note gen = generate_train_box_aligned[OF l1 l2 wh refl refl refl refl, of z cursor]
  have "generate_train_box line1 line2 z cursor s =
      (Inr (concat (map (\<lambda>(k, yaw). concat (map (\<lambda>i.
         [\<lparr>frame = cursor + (k * w + int i) * (h + 1),
           location = (linspace x11 x12 w ! i, linspace y11 y11 w ! i, z),
           rotation = (0, if 25000 < z then - 60 else - 45, yaw)\<rparr>,
          \<lparr>frame = cursor + (k * w + int i) * (h + 1) + h,
           location = (linspace x11 x12 w ! i, linspace y21 y21 w ! i, z),
           rotation = (0, if 25000 < z then - 60 else - 45, yaw)\<rparr>]) [0..<nat w]))
        [(0, 0), (1, 90), (2, 180), (3, 270)]), cursor + 4 * w * (h + 1)), s)"
    by (simp add: gen lane_keys_def[abs_def] algebra_simps)
  moreover have "int (length (concat (map (\<lambda>(k, yaw). concat (map (\<lambda>i.
         [\<lparr>frame = cursor + (k * w + int i) * (h + 1),
           location = (linspace x11 x12 w ! i, linspace y11 y11 w ! i, z),
           rotation = (0, if 25000 < z then - 60 else - 45, yaw)\<rparr>,
          \<lparr>frame = cursor + (k * w + int i) * (h + 1) + h,
           location = (linspace x11 x12 w ! i, linspace y21 y21 w ! i, z),
           rotation = (0, if 25000 < z then - 60 else - 45, yaw)\<rparr>]) [0..<nat w]))
        [(0, 0), (1, 90), (2, 180), (3, 270)]))) = 4 * w * 2"
    using w by (simp add: length_concat o_def sum_list_triv)
  ultimately show ?thesis
    unfolding eqs using wh by simp
qed

theorem generate_train_box_sweep_witness:
  "\<exists>keys. generate_train_box 0 1 30000 5
       (\<lambda>a. if a = 0 then [0, 0, 4000, 0] else [0, 8000, 4000, 8000]) =
       (Inr (keys, 53), \<lambda>a. if a = 0 then [0, 0, 4000, 0] else [0, 8000, 4000, 8000])
     \<and> length keys = 24
     \<and> hd keys = \<lparr>frame = 5, location = (0, 0, 30000), rotation = (0, - 60, 0)\<rparr>
     \<and> keys ! 1 = \<lparr>frame = 8, location = (0, 8000, 30000), rotation = (0, - 60, 0)\<rparr>
     \<and> keys ! 2 = \<lparr>frame = 9, location = (2000, 0, 30000), rotation = (0, - 60, 0)\<rparr>
     \<and> last keys = \<lparr>frame = 52, location = (4000, 8000, 30000), rotation = (0, - 60, 270)\<rparr>"
proof -
  have c: "box_instances 4000 0 0 4000 0 0 8000 = Inr (3, 3)"
    by (simp add: box_instances_aligned py_int_def)
  have u: "[0..<3] = [0, 1, 2]"
    by (simp add: upt_rec)
  show ?thesis
    using generate_train_box_sweep[of "\<lambda>a. if a = 0 then [0, 0, 4000, 0] else [0, 8000, 4000, 8000]"
        0 0 0 4000 0 1 0 8000 4000 8000 30000 5]
    by (simp add: c u linspace_def)
qed

text \<open>
  Claim C2. The call of \<^verbatim>\<open>main\<close> (line 874): edges (-100000, 0, -12000, 0) and
  (-100000, 38000, -12000, 38000), altitude 15000, cursor 0. The width is 88000, the
  height 38000, so with interval 4000 there are 24 lanes of 10 frames; the call emits 192
  keyframes, all of pitch -45, and returns the cursor 1056.
\<close>

theorem box_train_scenario:
  "math_dist [- 100000, 0] [- 12000, 0] = Inr 88000
   \<and> math_dist [- 100000, 0] [- 100000, 38000] = Inr 38000
   \<and> box_instances 4000 (- 100000) 0 (- 12000) 0 (- 100000) 38000 = Inr (24, 10)
   \<and> (\<exists>keys. generate_train_box 0 1 15000 0
          (\<lambda>a. if a = 0 then [- 100000, 0, - 12000, 0] else [- 100000, 38000, - 12000, 38000]) =
          (Inr (keys, 1056),
           \<lambda>a. if a = 0 then [- 100000, 0, - 12000, 0] else [- 100000, 38000, - 12000, 38000])
        \<and> length keys = 192
        \<and> map (\<lambda>k. fst (snd (rotation k))) keys = replicate 192 (- 45))"
proof -
  have d1: "math_dist [- 100000, 0] [- 12000, 0] = Inr 88000"
    by (simp add: math_dist_same_y)
  have d2: "math_dist [- 100000, 0] [- 100000, 38000] = Inr 38000"
    by (simp add: math_dist_same_x)
  have c: "box_instances 4000 (- 100000) 0 (- 12000) 0 (- 100000) 38000 = Inr (24, 10)"
    by (simp add: box_instances_def d1 d2 py_int_def)
  let ?s = "\<lambda>a::addr. if a = 0 then [- 100000, 0, - 12000, 0]
     else [- 100000, 38000, - 12000, 38000]"
  have l1: "?s 0 = [- 100000, 0, - 12000, 0]" and l2: "?s 1 = [- 100000, 38000, - 12000, 38000]"
    by simp_all
  note gen = generate_train_box_aligned[OF l1 l2 c refl refl refl refl, of 15000 0]
  have r: "replicate 48 (- 45 :: real) @ replicate 48 (- 45) @ replicate 48 (- 45)
      @ replicate 48 (- 45) = replicate 192 (- 45)"
    by (simp flip: replicate_add)
  show ?thesis
    using gen by (simp add: d1 d2 c length_concat_lane_keys pitch_concat_lane_keys r)
qed

subsection \<open>The line pattern, train variant\<close>

lemma generate_train_line_pair:
  assumes "s point1 = [x1, y1]" "s point2 = [x2, y2]"
    and "math_dist [x1, y1] [x2, y2] = Inr distance"
  shows "generate_train_line point1 point2 z yaw cf dense s =
     (line_sweep [x1, y1] [x2, y2] z yaw (\<lfloor>distance / (if dense then 100 else 500)\<rfloor> + 1) cf, s)"
proof -
  have "0 \<le> distance" using assms(3) by (rule math_dist_nonneg)
  then have "0 \<le> distance / 100" "0 \<le> distance / 500" by simp_all
  then show ?thesis
    by (simp add: generate_train_line_def assms py_int_nonneg)
qed

text \<open>
  Claim C3. For two endpoints at distance \<open>distance\<close>, \<^verbatim>\<open>generate_train_line\<close> emits
  exactly ten keyframes: five pairs (keyframe at \<^verbatim>\<open>point1\<close>, keyframe at \<^verbatim>\<open>point2\<close>)
  with the rotations \<open>(0, 0, yaw)\<close>, \<open>(0, 0, yaw + 90)\<close>, \<open>(0, 0, yaw + 180)\<close>,
  \<open>(0, 0, yaw + 270)\<close> and \<open>(0, 90, yaw)\<close>; no keyframe has pitch -90. Both keyframes of
  a pair have the same rotation and the same \<open>z\<close>. The cursor advances by \<open>instance\<close>
  after a keyframe at \<^verbatim>\<open>point1\<close> and by 1 after a keyframe at \<^verbatim>\<open>point2\<close>, where
  \<open>instance = floor (distance / 100) + 1\<close> for the dense preset and
  \<open>floor (distance / 500) + 1\<close> for the sparse one. In the scenario \<open>point1 = [0, 0]\<close>,
  \<open>point2 = [1000, 0]\<close>, \<open>z = 300\<close>, \<open>yaw = 0\<close>, sparse, cursor 0, \<open>instance\<close> is 3 and the
  cursor returned is 20.
\<close>

theorem generate_train_line_sweep:
  assumes "s point1 = [x1, y1]" and "s point2 = [x2, y2]"
    and "math_dist [x1, y1] [x2, y2] = Inr distance"
  shows "(\<exists>instance keys.
      instance = \<lfloor>distance / (if dense then 100 else 500)\<rfloor> + 1
    \<and> generate_train_line point1 point2 z yaw cursor dense s =
         (Inr (keys, cursor + 5 * (instance + 1)), s)
    \<and> keys =
        [\<lparr>frame = cursor, location = (x1, y1, z), rotation = (0, 0, yaw)\<rparr>,
         \<lparr>frame = cursor + instance, location = (x2, y2, z), rotation = (0, 0, yaw)\<rparr>,
         \<lparr>frame = cursor + (instance + 1), location = (x1, y1, z), rotation = (0, 0, yaw + 90)\<rparr>,
         \<lparr>frame = cursor + (instance + 1) + instance, location = (x2, y2, z),
           rotation = (0, 0, yaw + 90)\<rparr>,
         \<lparr>frame = cursor + 2 * (instance + 1), location = (x1, y1, z),
           rotation = (0, 0, yaw + 180)\<rparr>,
         \<lparr>frame = cursor + 2 * (instance + 1) + instance, location = (x2, y2, z),
           rotation = (0, 0, yaw + 180)\<rparr>,
         \<lparr>frame = cursor + 3 * (instance + 1), location = (x1, y1, z),
           rotation = (0, 0, yaw + 270)\<rparr>,
         \<lparr>frame = cursor + 3 * (instance + 1) + instance, location = (x2, y2, z),
           rotation = (0, 0, yaw + 270)\<rparr>,
         \<lparr>frame = cursor + 4 * (instance + 1), location = (x1, y1, z), rotation = (0, 90, yaw)\<rparr>,
         \<lparr>frame = cursor + 4 * (instance + 1) + instance, location = (x2, y2, z),
           rotation = (0, 90, yaw)\<rparr>]
    \<and> length keys = 10
    \<and> - 90 \<notin> (\<lambda>k. fst (snd (rotation k))) ` set keys)
  \<and> generate_train_line 0 1 300 0 0 False (\<lambda>a. if a = 0 then [0, 0] else [1000, 0]) =
      (Inr ([\<lparr>frame = 0, location = (0, 0, 300), rotation = (0, 0, 0)\<rparr>,
             \<lparr>frame = 3, location = (1000, 0, 300), rotation = (0, 0, 0)\<rparr>,
             \<lparr>frame = 4, location = (0, 0, 300), rotation = (0, 0, 90)\<rparr>,
             \<lparr>frame = 7, location = (1000, 0, 300), rotation = (0, 0, 90)\<rparr>,
             \<lparr>frame = 8, location = (0, 0, 300), rotation = (0, 0, 180)\<rparr>,
             \<lparr>frame = 11, location = (1000, 0, 300), rotation = (0, 0, 180)\<rparr>,
             \<lparr>frame = 12, location = (0, 0, 300), rotation = (0, 0, 270)\<rparr>,
             \<lparr>frame = 15, location = (1000, 0, 300), rotation = (0, 0, 270)\<rparr>,
             \<lparr>frame = 16, location = (0, 0, 300), rotation = (0, 90, 0)\<rparr>,
             \<lparr>frame = 19, location = (1000, 0, 300), rotation = (0, 90, 0)\<rparr>], 20),
       \<lambda>a. if a = 0 then [0, 0] else [1000, 0])"
proof -
  have general: "generate_train_line point1 point2 z yaw cursor dense s =
     (line_sweep [x1, y1] [x2, y2] z yaw (\<lfloor>distance / (if dense then 100 else 500)\<rfloor> + 1)
        cursor, s)"
    using assms by (rule generate_train_line_pair)
  have d: "math_dist [0, 0] [1000, 0] = Inr 1000"
    by (simp add: math_dist_same_y)
  have scenario: "generate_train_line 0 1 300 0 0 False
      (\<lambda>a. if a = 0 then [0, 0] else [1000, 0]) =
      (line_sweep [0, 0] [1000, 0] 300 0 (\<lfloor>(1000::real) / (if False then 100 else 500)\<rfloor> + 1) 0,
       \<lambda>a. if a = 0 then [0, 0] else [1000, 0])"
    by (rule generate_train_line_pair[OF _ _ d]) simp_all
  show ?thesis
    unfolding general scenario line_sweep_pair by (simp add: algebra_simps)
qed

theorem generate_train_line_sweep_witness:
  "\<exists>keys. generate_train_line 0 1 300 30 7 True (\<lambda>a. if a = 0 then [10, 20] else [260, 20]) =
       (Inr (keys, 27), \<lambda>a. if a = 0 then [10, 20] else [260, 20])
     \<and> map frame keys = [7, 10, 11, 14, 15, 18, 19, 22, 23, 26]
     \<and> map rotation keys = [(0, 0, 30), (0, 0, 30), (0, 0, 120), (0, 0, 120), (0, 0, 210),
          (0, 0, 210), (0, 0, 300), (0, 0, 300), (0, 90, 30), (0, 90, 30)]"
proof -
  have d: "math_dist [10, 20] [260, 20] = Inr 250"
    by (simp add: math_dist_same_y)
  show ?thesis
    using generate_train_line_sweep[of "\<lambda>a. if a = 0 then [10, 20] else [260, 20]" 0 10 20 1 260 20
        250 True 300 30 7, OF _ _ d]
    by simp
qed

subsection \<open>The box pattern, test variant\<close>

text \<open>
  Claim C4. On a region given by two axis-aligned edges \<^verbatim>\<open>generate_test_box\<close> makes one
  pass over the \<open>w_count\<close> lanes, with the counts of interval 4501, and emits
  \<open>2 * w_count\<close> keyframes. Lane \<open>i\<close> draws one pitch with \<^verbatim>\<open>randint(-60, -44)\<close> and then
  one yaw with \<^verbatim>\<open>randint(0, 361)\<close>, the draws \<open>2 * i\<close> and \<open>2 * i + 1\<close> of the call, so the
  pitch is an integer from -60 to -45 and the yaw an integer from 0 to 360, and every such
  pair is drawn by some random source. Both keyframes of the lane carry this pitch and
  yaw. The cursor advances by \<open>h_count\<close> and then by 1 in each lane. The store is returned
  as it was and the random source has lost \<open>2 * w_count\<close> draws.
\<close>

theorem generate_test_box_sweep:
  assumes "s line1 = [x11, y11, x12, y12]" and "s line2 = [x21, y21, x22, y22]"
    and "y11 = y12" and "y21 = y22" and "x11 = x21" and "x12 = x22"
  shows "(\<exists>w_count h_count keys.
      box_instances 4501 x11 y11 x12 y12 x21 y21 = Inr (w_count, h_count)
    \<and> generate_test_box line1 line2 z cursor s g =
        (Inr (keys, cursor + w_count * (h_count + 1)), s, sdrop (2 * nat w_count) g)
    \<and> keys = concat (map (\<lambda>i.
         [\<lparr>frame = cursor + int i * (h_count + 1),
           location = (linspace x11 x12 w_count ! i, linspace y11 y12 w_count ! i, z),
           rotation = (0, real_of_int (fst (randint (- 60) (- 44) (sdrop (2 * i) g))),
                          real_of_int (fst (randint 0 361 (sdrop (2 * i + 1) g))))\<rparr>,
          \<lparr>frame = cursor + int i * (h_count + 1) + h_count,
           location = (linspace x21 x22 w_count ! i, linspace y21 y22 w_count ! i, z),
           rotation = (0, real_of_int (fst (randint (- 60) (- 44) (sdrop (2 * i) g))),
                          real_of_int (fst (randint 0 361 (sdrop (2 * i + 1) g))))\<rparr>])
         [0..<nat w_count])
    \<and> int (length keys) = 2 * w_count)
  \<and> (\<forall>i. - 60 \<le> fst (randint (- 60) (- 44) (sdrop (2 * i) g))
          \<and> fst (randint (- 60) (- 44) (sdrop (2 * i) g)) < - 44
          \<and> 0 \<le> fst (randint 0 361 (sdrop (2 * i + 1) g))
          \<and> fst (randint 0 361 (sdrop (2 * i + 1) g)) \<le> 360)
  \<and> (\<forall>p y. - 60 \<le> p \<and> p < - 44 \<and> 0 \<le> y \<and> y \<le> 360 \<longrightarrow>
         (\<exists>g'. fst (randint (- 60) (- 44) g') = p \<and> fst (randint 0 361 (stl g')) = y))"
proof -
  obtain w h where wh: "box_instances 4501 x11 y11 x12 y11 x11 y21 = Inr (w, h)"
    and w: "2 \<le> w"
    using box_instances_total[of 4501] by force
  from assms have eqs: "y12 = y11" "y22 = y21" "x21 = x11" "x22 = x12"
    by simp_all
  from assms have l1: "s line1 = [x11, y11, x12, y11]" and l2: "s line2 = [x11, y21, x12, y21]"
    by simp_all
  note gen = generate_test_box_aligned[OF l1 l2 wh, of z cursor g]
  have first: "\<exists>w_count h_count keys.
      box_instances 4501 x11 y11 x12 y11 x11 y21 = Inr (w_count, h_count)
    \<and> generate_test_box line1 line2 z cursor s g =
        (Inr (keys, cursor + w_count * (h_count + 1)), s, sdrop (2 * nat w_count) g)
    \<and> keys = concat (map (\<lambda>i.
         [\<lparr>frame = cursor + int i * (h_count + 1),
           location = (linspace x11 x12 w_count ! i, linspace y11 y11 w_count ! i, z),
           rotation = (0, real_of_int (fst (randint (- 60) (- 44) (sdrop (2 * i) g))),
                          real_of_int (fst (randint 0 361 (sdrop (2 * i + 1) g))))\<rparr>,
          \<lparr>frame = cursor + int i * (h_count + 1) + h_count,
           location = (linspace x11 x12 w_count ! i, linspace y21 y21 w_count ! i, z),
           rotation = (0, real_of_int (fst (randint (- 60) (- 44) (sdrop (2 * i) g))),
                          real_of_int (fst (randint 0 361 (sdrop (2 * i + 1) g))))\<rparr>])
         [0..<nat w_count])
    \<and> int (length keys) = 2 * w_count"
    using w
    by (simp add: wh gen test_lane_keys_def[abs_def] lane_keys_def length_concat o_def
        sum_list_triv)
  have range: "- 60 \<le> fst (randint (- 60) (- 44) g')" "fst (randint (- 60) (- 44) g') < - 44"
    "0 \<le> fst (randint 0 361 g')" "fst (randint 0 361 g') \<le> 360" for g'
    using randint_range[of "- 60" "- 44" g'] randint_range[of 0 361 g'] by simp_all
  have attain: "\<exists>g'. fst (randint (- 60) (- 44) g') = p \<and> fst (randint 0 361 (stl g')) = y"
    if "- 60 \<le> p" "p < - 44" "0 \<le> y" "y \<le> 360" for p y
  proof -
    have "fst (randint (- 60) (- 44) (nat (p + 60) ## sconst (nat y))) = p"
      using that by (simp add: randint_def)
    moreover have "fst (randint 0 361 (stl (nat (p + 60) ## sconst (nat y)))) = y"
      using that by (simp add: randint_def)
    ultimately show ?thesis by blast
  qed
  show ?thesis
    unfolding eqs using first range attain by blast
qed

theorem generate_test_box_sweep_witness:
  "\<exists>keys. generate_test_box 0 1 15000 10
       (\<lambda>a. if a = 0 then [0, 0, 4501, 0] else [0, 9002, 4501, 9002])
       (3 ## 400 ## 17 ## 10 ## 35 ## 721 ## sconst 0) =
       (Inr (keys, 22), \<lambda>a. if a = 0 then [0, 0, 4501, 0] else [0, 9002, 4501, 9002], sconst 0)
     \<and> map frame keys = [10, 13, 14, 17, 18, 21]
     \<and> map rotation keys = [(0, - 57, 39), (0, - 57, 39), (0, - 59, 10), (0, - 59, 10),
          (0, - 57, 360), (0, - 57, 360)]
     \<and> (\<exists>g'. fst (randint (- 60) (- 44) g') = - 45 \<and> fst (randint 0 361 (stl g')) = 360)"
proof -
  have c: "box_instances 4501 0 0 4501 0 0 9002 = Inr (3, 3)"
    by (simp add: box_instances_aligned py_int_def)
  have u: "[0..<3] = [0, 1, 2]"
    by (simp add: upt_rec)
  have d: "sdrop 2 (a ## b ## t) = t" "sdrop 3 (a ## b ## c ## t) = t"
    "sdrop 4 (a ## b ## c ## d ## t) = t" "sdrop 5 (a ## b ## c ## d ## e ## t) = t"
    "sdrop 6 (a ## b ## c ## d ## e ## f ## t) = t" for a b c d e f :: nat and t
    by (simp_all add: numeral_eq_Suc)
  have n: "(a ## b ## c ## t) !! 2 = c" "(a ## b ## c ## d ## e ## t) !! 4 = e"
    for a b c d e :: nat and t
    by (simp_all add: numeral_eq_Suc)
  note sweep = generate_test_box_sweep[of
      "\<lambda>a. if a = 0 then [0, 0, 4501, 0] else [0, 9002, 4501, 9002]"
      0 0 0 4501 0 1 0 9002 4501 9002 15000 10 "3 ## 400 ## 17 ## 10 ## 35 ## 721 ## sconst 0"]
  have "\<exists>g'. fst (randint (- 60) (- 44) g') = - 45 \<and> fst (randint 0 361 (stl g')) = 360"
    using sweep by simp
  moreover have "\<exists>keys. generate_test_box 0 1 15000 10
       (\<lambda>a. if a = 0 then [0, 0, 4501, 0] else [0, 9002, 4501, 9002])
       (3 ## 400 ## 17 ## 10 ## 35 ## 721 ## sconst 0) =
       (Inr (keys, 22), \<lambda>a. if a = 0 then [0, 0, 4501, 0] else [0, 9002, 4501, 9002], sconst 0)
     \<and> map frame keys = [10, 13, 14, 17, 18, 21]
     \<and> map rotation keys = [(0, - 57, 39), (0, - 57, 39), (0, - 59, 10), (0, - 59, 10),
          (0, - 57, 360), (0, - 57, 360)]"
    using sweep by (simp add: c u d n randint_def)
  ultimately show ?thesis by simp
qed

subsection \<open>The precondition of the box generators\<close>

text \<open>
  Claim C8. With edges \<open>(x11, y11, x12, y12)\<close> and \<open>(x21, y21, x22, y22)\<close>, when an edge
  has endpoints of different Y or corresponding endpoints of the two edges differ in X, both
  box generators fail with the assertion error: no keyframe and no cursor are returned, the
  store is the one passed in, and the test variant has consumed no random draw. When the
  four equalities hold, neither generator fails.
\<close>

theorem box_precondition:
  assumes "s line1 = [x11, y11, x12, y12]" and "s line2 = [x21, y21, x22, y22]"
  shows "(y11 \<noteq> y12 \<or> y21 \<noteq> y22 \<or> x11 \<noteq> x21 \<or> x12 \<noteq> x22 \<longrightarrow>
            generate_train_box line1 line2 z cursor s = (Inl AssertionError, s)
          \<and> generate_test_box line1 line2 z cursor s g = (Inl AssertionError, s, g))
       \<and> (y11 = y12 \<and> y21 = y22 \<and> x11 = x21 \<and> x12 = x22 \<longrightarrow>
            (\<exists>keys c. generate_train_box line1 line2 z cursor s = (Inr (keys, c), s))
          \<and> (\<exists>keys c g'. generate_test_box line1 line2 z cursor s g = (Inr (keys, c), s, g')))"
proof (intro conjI impI)
  assume bad: "y11 \<noteq> y12 \<or> y21 \<noteq> y22 \<or> x11 \<noteq> x21 \<or> x12 \<noteq> x22"
  then show "generate_train_box line1 line2 z cursor s = (Inl AssertionError, s)"
    by (auto simp: generate_train_box_def assms)
  from bad show "generate_test_box line1 line2 z cursor s g = (Inl AssertionError, s, g)"
    by (auto simp: generate_test_box_def assms)
next
  assume ok: "y11 = y12 \<and> y21 = y22 \<and> x11 = x21 \<and> x12 = x22"
  obtain w h where "box_instances 4000 x11 y11 x12 y12 x21 y21 = Inr (w, h)"
    using box_instances_total[of 4000] by force
  then show "\<exists>keys c. generate_train_box line1 line2 z cursor s = (Inr (keys, c), s)"
    using ok by (simp add: generate_train_box_def assms Let_def split: prod.splits)
  obtain w' h' where "box_instances 4501 x11 y11 x12 y12 x21 y21 = Inr (w', h')"
    using box_instances_total[of 4501] by force
  then show "\<exists>keys c g'. generate_test_box line1 line2 z cursor s g = (Inr (keys, c), s, g')"
    using ok by (simp add: generate_test_box_def assms Let_def split: prod.splits)
qed

theorem box_precondition_witness:
  "generate_train_box 0 1 15000 0 (\<lambda>a. if a = 0 then [0, 0, 4000, 1] else [0, 8000, 4000, 8000])
     = (Inl AssertionError, \<lambda>a. if a = 0 then [0, 0, 4000, 1] else [0, 8000, 4000, 8000])
   \<and> generate_test_box 0 1 15000 0 (\<lambda>a. if a = 0 then [0, 0, 4000, 0] else [5, 8000, 4000, 8000])
       (sconst 9)
     = (Inl AssertionError, \<lambda>a. if a = 0 then [0, 0, 4000, 0] else [5, 8000, 4000, 8000], sconst 9)
   \<and> (\<exists>keys c. generate_train_box 0 1 15000 0
         (\<lambda>a. if a = 0 then [0, 0, 4000, 0] else [0, 8000, 4000, 8000])
       = (Inr (keys, c), \<lambda>a. if a = 0 then [0, 0, 4000, 0] else [0, 8000, 4000, 8000]))"
  using box_precondition[of "\<lambda>a. if a = 0 then [0, 0, 4000, 1] else [0, 8000, 4000, 8000]"
      0 0 0 4000 1 1 0 8000 4000 8000 15000 0 "sconst 9"]
    box_precondition[of "\<lambda>a. if a = 0 then [0, 0, 4000, 0] else [5, 8000, 4000, 8000]"
      0 0 0 4000 0 1 5 8000 4000 8000 15000 0 "sconst 9"]
    box_precondition[of "\<lambda>a. if a = 0 then [0, 0, 4000, 0] else [0, 8000, 4000, 8000]"
      0 0 0 4000 0 1 0 8000 4000 8000 15000 0 "sconst 9"]
  by simp

subsection \<open>The line pattern, test variant\<close>

lemma generate_test_line_pair:
  assumes "s point1 = [x1, y1]" "s point2 = [x2, y2]" "point1 \<noteq> point2"
    and "math_dist [x1 + cos (radians yaw) * 570, y1 + sin (radians yaw) * 570]
           [x2 - cos (radians yaw) * 570, y2 - sin (radians yaw) * 570] = Inr distance"
  shows "generate_test_line point1 point2 z yaw cf s g =
     (line_sweep [x1 + cos (radians yaw) * 570, y1 + sin (radians yaw) * 570]
        [x2 - cos (radians yaw) * 570, y2 - sin (radians yaw) * 570] z
        (real_of_int (fst (randint 0 90 g))) (\<lfloor>distance / 4830\<rfloor> + 1) cf,
      s(point1 := [x1 + cos (radians yaw) * 570, y1 + sin (radians yaw) * 570],
        point2 := [x2 - cos (radians yaw) * 570, y2 - sin (radians yaw) * 570]),
      stl g)"
proof -
  have "0 \<le> distance" using assms(4) by (rule math_dist_nonneg)
  then have "0 \<le> distance / 4830" by simp
  then show ?thesis
    using assms(3)
    by (simp add: generate_test_line_def getitem_def assms(1,2,4) Let_def randint_def
        py_int_nonneg)
qed

text \<open>
  Claim C5 as the code has it. \<^verbatim>\<open>generate_test_line\<close> moves the first endpoint by
  \<open>+570 * (cos yaw, sin yaw)\<close> and the second by \<open>-570 * (cos yaw, sin yaw)\<close>, the input yaw
  read in degrees, and stores the moved endpoints in the two argument lists (two distinct
  lists). It then replaces the yaw by an integer drawn with \<^verbatim>\<open>randint(0, 90)\<close>, that is
  from 0 to 89: every such value can be drawn and 90 cannot. With
  \<open>instance = floor (distance / 4830) + 1\<close>, where \<open>distance\<close> is the distance of the moved
  endpoints, it emits the ten keyframes of the train variant for the moved endpoints and the
  drawn yaw, and returns the cursor \<open>cursor + 5 * (instance + 1)\<close>.
\<close>

theorem generate_test_line_sweep:
  assumes "s point1 = [x1, y1]" and "s point2 = [x2, y2]" and "point1 \<noteq> point2"
    and "dx = cos (radians yaw) * 570" and "dy = sin (radians yaw) * 570"
    and "math_dist [x1 + dx, y1 + dy] [x2 - dx, y2 - dy] = Inr distance"
  shows "(\<exists>yaw1 instance keys.
      yaw1 = real_of_int (fst (randint 0 90 g))
    \<and> 0 \<le> fst (randint 0 90 g) \<and> fst (randint 0 90 g) < 90
    \<and> instance = \<lfloor>distance / 4830\<rfloor> + 1
    \<and> generate_test_line point1 point2 z yaw cursor s g =
         (Inr (keys, cursor + 5 * (instance + 1)),
          s(point1 := [x1 + dx, y1 + dy], point2 := [x2 - dx, y2 - dy]), stl g)
    \<and> keys =
        [\<lparr>frame = cursor, location = (x1 + dx, y1 + dy, z), rotation = (0, 0, yaw1)\<rparr>,
         \<lparr>frame = cursor + instance, location = (x2 - dx, y2 - dy, z), rotation = (0, 0, yaw1)\<rparr>,
         \<lparr>frame = cursor + (instance + 1), location = (x1 + dx, y1 + dy, z),
           rotation = (0, 0, yaw1 + 90)\<rparr>,
         \<lparr>frame = cursor + (instance + 1) + instance, location = (x2 - dx, y2 - dy, z),
           rotation = (0, 0, yaw1 + 90)\<rparr>,
         \<lparr>frame = cursor + 2 * (instance + 1), location = (x1 + dx, y1 + dy, z),
           rotation = (0, 0, yaw1 + 180)\<rparr>,
         \<lparr>frame = cursor + 2 * (instance + 1) + instance, location = (x2 - dx, y2 - dy, z),
           rotation = (0, 0, yaw1 + 180)\<rparr>,
         \<lparr>frame = cursor + 3 * (instance + 1), location = (x1 + dx, y1 + dy, z),
           rotation = (0, 0, yaw1 + 270)\<rparr>,
         \<lparr>frame = cursor + 3 * (instance + 1) + instance, location = (x2 - dx, y2 - dy, z),
           rotation = (0, 0, yaw1 + 270)\<rparr>,
         \<lparr>frame = cursor + 4 * (instance + 1), location = (x1 + dx, y1 + dy, z),
           rotation = (0, 90, yaw1)\<rparr>,
         \<lparr>frame = cursor + 4 * (instance + 1) + instance, location = (x2 - dx, y2 - dy, z),
           rotation = (0, 90, yaw1)\<rparr>])
  \<and> (\<forall>v. 0 \<le> v \<and> v < 90 \<longrightarrow> (\<exists>g'. fst (randint 0 90 g') = v))
  \<and> (\<forall>g'. fst (randint 0 90 g') \<noteq> 90)"
proof -
  have gen: "generate_test_line point1 point2 z yaw cursor s g =
     (line_sweep [x1 + dx, y1 + dy] [x2 - dx, y2 - dy] z
        (real_of_int (fst (randint 0 90 g))) (\<lfloor>distance / 4830\<rfloor> + 1) cursor,
      s(point1 := [x1 + dx, y1 + dy], point2 := [x2 - dx, y2 - dy]), stl g)"
    using assms(6) unfolding assms(4,5)
    by (rule generate_test_line_pair[OF assms(1-3)])
  have range: "0 \<le> fst (randint 0 90 g')" "fst (randint 0 90 g') < 90" for g'
    using randint_range[of 0 90 g'] by simp_all
  have attain: "\<exists>g'. fst (randint 0 90 g') = v" if "0 \<le> v" "v < 90" for v
    using randint_attains[of 0 v 90] that by blast
  have never: "fst (randint 0 90 g') \<noteq> 90" for g'
    using range(2)[of g'] by simp
  have "\<exists>yaw1 instance keys.
      yaw1 = real_of_int (fst (randint 0 90 g))
    \<and> 0 \<le> fst (randint 0 90 g) \<and> fst (randint 0 90 g) < 90
    \<and> instance = \<lfloor>distance / 4830\<rfloor> + 1
    \<and> generate_test_line point1 point2 z yaw cursor s g =
         (Inr (keys, cursor + 5 * (instance + 1)),
          s(point1 := [x1 + dx, y1 + dy], point2 := [x2 - dx, y2 - dy]), stl g)
    \<and> keys =
        [\<lparr>frame = cursor, location = (x1 + dx, y1 + dy, z), rotation = (0, 0, yaw1)\<rparr>,
         \<lparr>frame = cursor + instance, location = (x2 - dx, y2 - dy, z), rotation = (0, 0, yaw1)\<rparr>,
         \<lparr>frame = cursor + (instance + 1), location = (x1 + dx, y1 + dy, z),
           rotation = (0, 0, yaw1 + 90)\<rparr>,
         \<lparr>frame = cursor + (instance + 1) + instance, location = (x2 - dx, y2 - dy, z),
           rotation = (0, 0, yaw1 + 90)\<rparr>,
         \<lparr>frame = cursor + 2 * (instance + 1), location = (x1 + dx, y1 + dy, z),
           rotation = (0, 0, yaw1 + 180)\<rparr>,
         \<lparr>frame = cursor + 2 * (instance + 1) + instance, location = (x2 - dx, y2 - dy, z),
           rotation = (0, 0, yaw1 + 180)\<rparr>,
         \<lparr>frame = cursor + 3 * (instance + 1), location = (x1 + dx, y1 + dy, z),
           rotation = (0, 0, yaw1 + 270)\<rparr>,
         \<lparr>frame = cursor + 3 * (instance + 1) + instance, location = (x2 - dx, y2 - dy, z),
           rotation = (0, 0, yaw1 + 270)\<rparr>,
         \<lparr>frame = cursor + 4 * (instance + 1), location = (x1 + dx, y1 + dy, z),
           rotation = (0, 90, yaw1)\<rparr>,
         \<lparr>frame = cursor + 4 * (instance + 1) + instance, location = (x2 - dx, y2 - dy, z),
           rotation = (0, 90, yaw1)\<rparr>]"
    unfolding gen line_sweep_pair using range[of g] by (simp add: algebra_simps)
  then show ?thesis
    using attain never by blast
qed

theorem generate_test_line_sweep_witness:
  "\<exists>keys. generate_test_line 0 1 300 0 4 (\<lambda>a. if a = 0 then [0, 0] else [10000, 0])
       (95 ## sconst 0) =
       (Inr (keys, 19),
        \<lambda>a. if a = 0 then [570, 0] else if a = 1 then [9430, 0] else [10000, 0], sconst 0)
     \<and> map frame keys = [4, 6, 7, 9, 10, 12, 13, 15, 16, 18]
     \<and> map location keys = [(570, 0, 300), (9430, 0, 300), (570, 0, 300), (9430, 0, 300),
          (570, 0, 300), (9430, 0, 300), (570, 0, 300), (9430, 0, 300), (570, 0, 300),
          (9430, 0, 300)]
     \<and> map rotation keys = [(0, 0, 5), (0, 0, 5), (0, 0, 95), (0, 0, 95), (0, 0, 185),
          (0, 0, 185), (0, 0, 275), (0, 0, 275), (0, 90, 5), (0, 90, 5)]"
proof -
  have d: "math_dist [0 + 570, 0 + 0] [10000 - 570, 0 - 0] = Inr 8860"
    by (simp add: math_dist_def)
  have c: "570 = cos (radians 0) * 570" "0 = sin (radians 0) * 570"
    by (simp_all add: radians_def)
  have st: "(\<lambda>a. if a = 0 then [0, 0] else [10000, 0])(0 := [570, 0], Suc 0 := [9430, 0]) =
      (\<lambda>a::addr. if a = 0 then [570, 0] else if a = 1 then [9430, 0] else [10000, 0])"
    by (rule ext) simp
  show ?thesis
    using generate_test_line_sweep[of "\<lambda>a. if a = 0 then [0, 0] else [10000, 0]" 0 0 0 1 10000 0
        570 0 0 8860 "95 ## sconst 0" 300 4, OF _ _ _ c d]
    by (simp add: randint_def st)
qed

text \<open>
  The claim as stated has the yaw drawn from 0 to 90, both included. No random source
  makes \<^verbatim>\<open>generate_test_line\<close> use the yaw 90.
\<close>

theorem test_line_yaw_counterexample:
  "\<not> (\<exists>g keys c st g'.
        generate_test_line 0 1 300 0 0 (\<lambda>a. if a = 0 then [0, 0] else [10000, 0]) g =
          (Inr (keys, c), st, g')
      \<and> rotation (hd keys) = (0, 0, 90))"
proof -
  have d: "math_dist [0 + cos (radians 0) * 570, 0 + sin (radians 0) * 570]
      [10000 - cos (radians 0) * 570, 0 - sin (radians 0) * 570] = Inr 8860"
    by (simp add: math_dist_def radians_def)
  have r: "int (shd g) mod 90 \<noteq> 90" for g :: rng
    using pos_mod_bound[of 90 "int (shd g)"] by simp
  show ?thesis
    using r
    by (simp add: generate_test_line_pair[where distance = 8860, OF _ _ _ d] line_sweep_pair
        randint_def)
qed

subsection \<open>Effects on the arguments\<close>

lemma generate_train_box_store: "snd (generate_train_box line1 line2 z cf s) = s"
  by (simp add: generate_train_box_def Let_def split: sum.splits prod.splits)

lemma generate_test_box_store: "fst (snd (generate_test_box line1 line2 z cf s g)) = s"
  by (simp add: generate_test_box_def Let_def split: sum.splits prod.splits)

lemma generate_train_line_store: "snd (generate_train_line point1 point2 z yaw cf dense s) = s"
  by (simp add: generate_train_line_def Let_def split: sum.splits)

lemma generate_test_line_frame:
  assumes "a \<noteq> point1" "a \<noteq> point2"
  shows "fst (snd (generate_test_line point1 point2 z yaw cf s g)) a = s a"
  using assms
  by (simp add: generate_test_line_def Let_def split: sum.splits prod.splits)

text \<open>
  Claim C9 as the code has it. \<^verbatim>\<open>generate_train_box\<close>, \<^verbatim>\<open>generate_test_box\<close> and
  \<^verbatim>\<open>generate_train_line\<close> leave every list of the store as it was. \<^verbatim>\<open>generate_test_line\<close>
  changes no list other than its two arguments, and it overwrites these two (two distinct
  lists of two elements) with the endpoints moved by 570 along the input yaw. The numbers
  \<open>z\<close>, \<open>yaw\<close> and the cursor are passed by value. Only the test variants take and return
  the random source.
\<close>

theorem generators_store_effect:
  "snd (generate_train_box line1 line2 z cursor s) = s
   \<and> fst (snd (generate_test_box line1 line2 z cursor s g)) = s
   \<and> snd (generate_train_line point1 point2 z yaw cursor dense s) = s
   \<and> (\<forall>a. a \<noteq> point1 \<and> a \<noteq> point2 \<longrightarrow>
         fst (snd (generate_test_line point1 point2 z yaw cursor s g)) a = s a)
   \<and> (s point1 = [x1, y1] \<and> s point2 = [x2, y2] \<and> point1 \<noteq> point2 \<longrightarrow>
         fst (snd (generate_test_line point1 point2 z yaw cursor s g)) =
           s(point1 := [x1 + cos (radians yaw) * 570, y1 + sin (radians yaw) * 570],
             point2 := [x2 - cos (radians yaw) * 570, y2 - sin (radians yaw) * 570]))"
proof -
  have "fst (snd (generate_test_line point1 point2 z yaw cursor s g)) =
           s(point1 := [x1 + cos (radians yaw) * 570, y1 + sin (radians yaw) * 570],
             point2 := [x2 - cos (radians yaw) * 570, y2 - sin (radians yaw) * 570])"
    if "s point1 = [x1, y1]" "s point2 = [x2, y2]" "point1 \<noteq> point2"
    using that by (simp add: generate_test_line_pair[OF that math_dist_pair])
  then show ?thesis
    by (simp add: generate_train_box_store generate_test_box_store generate_train_line_store
        generate_test_line_frame)
qed

theorem generators_store_effect_witness:
  "fst (snd (generate_test_line 0 1 300 0 4 (\<lambda>a. if a = 0 then [0, 0] else [10000, 0])
       (95 ## sconst 0))) =
     (\<lambda>a. if a = 0 then [570, 0] else if a = 1 then [9430, 0] else [10000, 0])
   \<and> snd (generate_train_line 0 1 300 0 4 False (\<lambda>a. if a = 0 then [0, 0] else [10000, 0])) =
     (\<lambda>a. if a = 0 then [0, 0] else [10000, 0])"
proof -
  have st: "(\<lambda>a. if a = 0 then [0, 0] else [10000, 0])(0 := [570, 0], Suc 0 := [9430, 0]) =
      (\<lambda>a::addr. if a = 0 then [570, 0] else if a = 1 then [9430, 0] else [10000, 0])"
    by (rule ext) simp
  show ?thesis
    using generators_store_effect[of 0 1 300 4 "\<lambda>a. if a = 0 then [0, 0] else [10000, 0]"
        "95 ## sconst 0" 0 1 0 False 0 0 10000 0]
    by (simp add: radians_def st)
qed

text \<open>
  The claim as stated has every generator leave its arguments unchanged. After this call
  of \<^verbatim>\<open>generate_test_line\<close> the caller's first list holds \<open>[570, 0]\<close>, not \<open>[0, 0]\<close>.
\<close>

theorem test_line_mutation_counterexample:
  "fst (snd (generate_test_line 0 1 300 0 0 (\<lambda>a. if a = 0 then [0, 0] else [10000, 0])
       (sconst 0))) 0 = [570, 0]
   \<and> (\<lambda>a::addr. if a = 0 then [0, 0] else [10000, 0]) 0 = [0, 0 :: real]
   \<and> fst (snd (generate_test_line 0 1 300 0 0 (\<lambda>a. if a = 0 then [0, 0] else [10000, 0])
       (sconst 0))) \<noteq> (\<lambda>a. if a = 0 then [0, 0] else [10000, 0])"
proof -
  have d: "math_dist [0 + cos (radians 0) * 570, 0 + sin (radians 0) * 570]
      [10000 - cos (radians 0) * 570, 0 - sin (radians 0) * 570] = Inr 8860"
    by (simp add: math_dist_def radians_def)
  have v: "fst (snd (generate_test_line 0 1 300 0 0
      (\<lambda>a. if a = 0 then [0, 0] else [10000, 0]) (sconst 0))) 0 = [570, 0]"
    by (simp add: generate_test_line_pair[where distance = 8860, OF _ _ _ d] radians_def)
  then have "fst (snd (generate_test_line 0 1 300 0 0
      (\<lambda>a. if a = 0 then [0, 0] else [10000, 0]) (sconst 0))) \<noteq>
      (\<lambda>a. if a = 0 then [0, 0] else [10000, 0])"
    by (auto simp: fun_eq_iff)
  with v show ?thesis by simp
qed

subsection \<open>The cursor and the frames\<close>

lemma generate_test_box_frames:
  assumes "fst (generate_test_box line1 line2 z cf s g) = Inr (keys, cf')"
  shows "frames_inv cf keys cf' \<and> keys \<noteq> []"
proof -
  obtain x11 y11 x12 y12 where l1: "unpack4 (s line1) = Inr (x11, y11, x12, y12)"
    using assms by (auto simp: generate_test_box_def split: sum.splits)
  obtain x21 y21 x22 y22 where l2: "unpack4 (s line2) = Inr (x21, y21, x22, y22)"
    using assms l1 by (auto simp: generate_test_box_def split: sum.splits)
  obtain w h where wh: "box_instances 4501 x11 y11 x12 y12 x21 y21 = Inr (w, h)"
    and w: "2 \<le> w" and h: "1 \<le> h"
    using box_instances_total[of 4501] by force
  define res where "res = test_box_loop [0..<nat w] (linspace x11 x12 w) (linspace y11 y12 w)
     (linspace x21 x22 w) (linspace y21 y22 w) z h ([], cf, g)"
  have keys: "keys = fst res" and cf': "cf' = fst (snd res)"
    using assms l1 l2 wh
    by (simp_all add: generate_test_box_def res_def Let_def split: if_splits prod.splits)
  have "frames_inv cf (fst res) (fst (snd res))"
    unfolding res_def by (rule test_box_loop_frames[OF h frames_inv_Nil])
  moreover have "length (fst res) = 2 * nat w"
    unfolding res_def by (simp add: test_box_loop_length)
  ultimately show ?thesis
    using w keys cf' by auto
qed

lemma line_sweep_frames:
  assumes "line_sweep point1 point2 z yaw n cf = Inr (keys, cf')" "1 \<le> n"
  shows "frames_inv cf keys cf' \<and> keys \<noteq> []"
proof -
  from assms(1) obtain a b c d where
    "keys = [\<lparr>frame = cf, location = (a, b, z), rotation = (0, 0, yaw)\<rparr>,
           \<lparr>frame = cf + n, location = (c, d, z), rotation = (0, 0, yaw)\<rparr>,
           \<lparr>frame = cf + n + 1, location = (a, b, z), rotation = (0, 0, 90 + yaw)\<rparr>,
           \<lparr>frame = cf + n + 1 + n, location = (c, d, z), rotation = (0, 0, 90 + yaw)\<rparr>,
           \<lparr>frame = cf + n + 1 + n + 1, location = (a, b, z), rotation = (0, 0, 180 + yaw)\<rparr>,
           \<lparr>frame = cf + n + 1 + n + 1 + n, location = (c, d, z), rotation = (0, 0, 180 + yaw)\<rparr>,
           \<lparr>frame = cf + n + 1 + n + 1 + n + 1, location = (a, b, z),
             rotation = (0, 0, 270 + yaw)\<rparr>,
           \<lparr>frame = cf + n + 1 + n + 1 + n + 1 + n, location = (c, d, z),
             rotation = (0, 0, 270 + yaw)\<rparr>,
           \<lparr>frame = cf + n + 1 + n + 1 + n + 1 + n + 1, location = (a, b, z),
             rotation = (0, 90, yaw)\<rparr>,
           \<lparr>frame = cf + n + 1 + n + 1 + n + 1 + n + 1 + n, location = (c, d, z),
             rotation = (0, 90, yaw)\<rparr>]"
    and "cf' = cf + n + 1 + n + 1 + n + 1 + n + 1 + n + 1"
    by (auto simp: line_sweep_def Let_def split: sum.splits)
  then show ?thesis
    using assms(2) by (simp add: frames_inv_def)
qed

lemma generate_train_line_frames:
  assumes "fst (generate_train_line point1 point2 z yaw cf dense s) = Inr (keys, cf')"
  shows "frames_inv cf keys cf' \<and> keys \<noteq> []"
proof -
  obtain distance where d: "math_dist (s point1) (s point2) = Inr distance"
    using assms by (auto simp: generate_train_line_def split: sum.splits)
  have "0 \<le> distance" using d by (rule math_dist_nonneg)
  then have n: "1 \<le> (if dense then py_int (distance / 100) + 1 else py_int (distance / 500) + 1)"
    by (simp add: py_int_def)
  have "line_sweep (s point1) (s point2) z yaw
      (if dense then py_int (distance / 100) + 1 else py_int (distance / 500) + 1) cf
      = Inr (keys, cf')"
    using assms d by (simp add: generate_train_line_def)
  then show ?thesis
    using n by (rule line_sweep_frames)
qed

lemma line_sweep_dist_frames:
  assumes "line_sweep p q z y (py_int (d / k) + 1) cf = Inr (keys, cf')"
    and "math_dist a b = Inr d" and "0 < k"
  shows "frames_inv cf keys cf' \<and> keys \<noteq> []"
proof -
  have "0 \<le> d" using assms(2) by (rule math_dist_nonneg)
  with assms(3) have "1 \<le> py_int (d / k) + 1"
    by (simp add: py_int_def)
  with assms(1) show ?thesis by (rule line_sweep_frames)
qed

lemma generate_test_line_frames:
  assumes "fst (generate_test_line point1 point2 z yaw cf s g) = Inr (keys, cf')"
  shows "frames_inv cf keys cf' \<and> keys \<noteq> []"
  using assms
  by (auto simp: generate_test_line_def Let_def split: sum.splits prod.splits
      dest: line_sweep_dist_frames[where k = 4830])

lemma generators_frames:
  assumes "r = fst (generate_train_box line1 line2 z cf s)
         \<or> r = fst (generate_test_box line1 line2 z cf s g)
         \<or> r = fst (generate_train_line point1 point2 z yaw cf dense s)
         \<or> r = fst (generate_test_line point1 point2 z yaw cf s g)"
    and "r = Inr (keys, cf')"
  shows "frames_inv cf keys cf'" and "keys \<noteq> []"
  using assms generate_train_box_frames[of line1 line2 z cf s keys cf']
    generate_test_box_frames[of line1 line2 z cf s g keys cf']
    generate_train_line_frames[of point1 point2 z yaw cf dense s keys cf']
    generate_test_line_frames[of point1 point2 z yaw cf s g keys cf']
  by auto

text \<open>
  Claim C7. Whatever generator is called (train or test, box or line), when the starting
  cursor is not negative and the call returns a result, the cursor returned is strictly
  greater than the one passed in, every frame emitted is a non-negative integer, and the
  frames of the keyframes, in the order of emission, increase strictly: they are
  non-decreasing and no two keyframes of the call share a frame.
\<close>

theorem cursor_monotone:
  assumes "0 \<le> cursor"
    and "r = fst (generate_train_box line1 line2 z cursor s)
       \<or> r = fst (generate_test_box line1 line2 z cursor s g)
       \<or> r = fst (generate_train_line point1 point2 z yaw cursor dense s)
       \<or> r = fst (generate_test_line point1 point2 z yaw cursor s g)"
    and "r = Inr (keys, cursor')"
  shows "cursor < cursor' \<and> (\<forall>k \<in> set keys. 0 \<le> frame k)
       \<and> sorted (map frame keys) \<and> distinct (map frame keys)"
proof -
  have inv: "frames_inv cursor keys cursor'" and ne: "keys \<noteq> []"
    using generators_frames[OF assms(2,3)] by simp_all
  from ne have "hd keys \<in> set keys" by simp
  with inv have "cursor < cursor'"
    by (fastforce simp: frames_inv_def)
  moreover from inv assms(1) have "\<forall>k \<in> set keys. 0 \<le> frame k"
    by (fastforce simp: frames_inv_def)
  moreover from inv have "sorted_wrt (<) (map frame keys)"
    by (simp add: frames_inv_def)
  then have "sorted (map frame keys) \<and> distinct (map frame keys)"
    by (simp add: strict_sorted_iff)
  ultimately show ?thesis by simp
qed

theorem cursor_monotone_witness:
  "\<exists>keys c. fst (generate_train_line 0 1 300 30 7 True
         (\<lambda>a. if a = 0 then [10, 20] else [260, 20])) = Inr (keys, c)
     \<and> map frame keys = [7, 10, 11, 14, 15, 18, 19, 22, 23, 26] \<and> c = 27
     \<and> (0::int) \<le> 7 \<and> 7 < c \<and> (\<forall>k \<in> set keys. 0 \<le> frame k)
     \<and> sorted (map frame keys) \<and> distinct (map frame keys)"
proof -
  let ?s = "\<lambda>a::addr. if a = 0 then [10, 20] else [260, 20]"
  let ?keys = "[\<lparr>frame = 7, location = (10, 20, 300), rotation = (0, 0, 30)\<rparr>,
           \<lparr>frame = 10, location = (260, 20, 300), rotation = (0, 0, 30)\<rparr>,
           \<lparr>frame = 11, location = (10, 20, 300), rotation = (0, 0, 120)\<rparr>,
           \<lparr>frame = 14, location = (260, 20, 300), rotation = (0, 0, 120)\<rparr>,
           \<lparr>frame = 15, location = (10, 20, 300), rotation = (0, 0, 210)\<rparr>,
           \<lparr>frame = 18, location = (260, 20, 300), rotation = (0, 0, 210)\<rparr>,
           \<lparr>frame = 19, location = (10, 20, 300), rotation = (0, 0, 300)\<rparr>,
           \<lparr>frame = 22, location = (260, 20, 300), rotation = (0, 0, 300)\<rparr>,
           \<lparr>frame = 23, location = (10, 20, 300), rotation = (0, 90, 30)\<rparr>,
           \<lparr>frame = 26, location = (260, 20, 300), rotation = (0, 90, 30)\<rparr>]"
  have d: "math_dist [10, 20] [260, 20] = Inr 250"
    by (simp add: math_dist_same_y)
  have e: "fst (generate_train_line 0 1 300 30 7 True ?s) = Inr (?keys, 27)"
    using generate_train_line_pair[OF _ _ d, of ?s 0 1 300 30 7 True]
    by (simp add: line_sweep_pair)
  have c0: "(0::int) \<le> 7" by simp
  have dj: "Inr (?keys, 27) = fst (generate_train_box 0 1 300 7 ?s)
       \<or> Inr (?keys, 27) = fst (generate_test_box 0 1 300 7 ?s (sconst 0))
       \<or> Inr (?keys, 27) = fst (generate_train_line 0 1 300 30 7 True ?s)
       \<or> Inr (?keys, 27) = fst (generate_test_line 0 1 300 30 7 ?s (sconst 0))"
    using e by simp
  have "(7::int) < 27 \<and> (\<forall>k \<in> set ?keys. 0 \<le> frame k)
       \<and> sorted (map frame ?keys) \<and> distinct (map frame ?keys)"
    by (rule cursor_monotone[OF c0 dj refl])
  with e show ?thesis by simp
qed

text \<open>
  Claim C10. For each of the four generators, a call that returns a result has emitted at
  least one keyframe, the first keyframe has the frame of the cursor passed in, and the
  cursor returned is the frame of the last keyframe plus 1.
\<close>

theorem cursor_last_frame:
  assumes "r = fst (generate_train_box line1 line2 z cursor s)
       \<or> r = fst (generate_test_box line1 line2 z cursor s g)
       \<or> r = fst (generate_train_line point1 point2 z yaw cursor dense s)
       \<or> r = fst (generate_test_line point1 point2 z yaw cursor s g)"
    and "r = Inr (keys, cursor')"
  shows "keys \<noteq> [] \<and> frame (hd keys) = cursor \<and> cursor' = frame (last keys) + 1"
  using generators_frames[OF assms] by (auto simp: frames_inv_def)

theorem cursor_last_frame_witness:
  "\<exists>keys c. fst (generate_test_box 0 1 15000 10
         (\<lambda>a. if a = 0 then [0, 0, 4501, 0] else [0, 9002, 4501, 9002])
         (3 ## 400 ## 17 ## 10 ## 35 ## 721 ## sconst 0)) = Inr (keys, c)
     \<and> c = 22 \<and> keys \<noteq> [] \<and> frame (hd keys) = 10 \<and> c = frame (last keys) + 1"
proof -
  let ?s = "\<lambda>a::addr. if a = 0 then [0, 0, 4501, 0] else [0, 9002, 4501, 9002]"
  let ?g = "3 ## 400 ## 17 ## 10 ## 35 ## 721 ## sconst 0"
  have c: "box_instances 4501 0 0 4501 0 0 9002 = Inr (3, 3)"
    by (simp add: box_instances_aligned py_int_def)
  have l1: "?s 0 = [0, 0, 4501, 0]" and l2: "?s 1 = [0, 9002, 4501, 9002]"
    by simp_all
  have "\<exists>keys. fst (generate_test_box 0 1 15000 10 ?s ?g) = Inr (keys, 22)"
    using generate_test_box_aligned[OF l1 l2 c, of 15000 10 ?g] by simp
  then obtain keys where e: "fst (generate_test_box 0 1 15000 10 ?s ?g) = Inr (keys, 22)"
    by blast
  then have dj: "Inr (keys, 22) = fst (generate_train_box 0 1 15000 10 ?s)
       \<or> Inr (keys, 22) = fst (generate_test_box 0 1 15000 10 ?s ?g)
       \<or> Inr (keys, 22) = fst (generate_train_line 0 1 15000 0 10 False ?s)
       \<or> Inr (keys, 22) = fst (generate_test_line 0 1 15000 0 10 ?s ?g)"
    by simp
  have "keys \<noteq> [] \<and> frame (hd keys) = 10 \<and> 22 = frame (last keys) + 1"
    by (rule cursor_last_frame[OF dj refl])
  with e show ?thesis by simp
qed

end
